theory Spec2Isabelle
  imports Main
begin

section \<open>Notifications\<close>

text \<open>
  A notification as the widget receives it from the backend (JSON) or from the realtime
  channel. Only the fields that the control flow of \<^verbatim>\<open>widget.js\<close> reads are kept;
  \<open>linkButton\<close> and \<open>linkButtonLabel\<close> only change the markup. JavaScript truthiness of
  \<open>read\<close> and \<open>dismissed\<close> is a \<open>bool\<close>; an unset \<open>alertLevel\<close> or \<open>actionUrl\<close> is
  \<open>None\<close>. Ids are compared as strings, the form they have in the
  \<^verbatim>\<open>data-notification-id\<close> attribute.
\<close>

record notification =
  nid :: string
  title :: string
  ntext :: string
  alertLevel :: "string option"
  read :: bool
  dismissed :: bool
  actionUrl :: "string option"
  ts :: int

section \<open>The merge of \<^verbatim>\<open>fetchNotifications\<close>\<close>

text \<open>
  A JavaScript \<^verbatim>\<open>Map\<close> keeps its entries in insertion order: \<^verbatim>\<open>set\<close> on a key that is
  present replaces the value where it stands, \<^verbatim>\<open>set\<close> on a new key appends, \<^verbatim>\<open>delete\<close>
  removes the entry, \<^verbatim>\<open>values()\<close> lists the values in that order.
\<close>

fun Map_set :: "'k \<Rightarrow> 'v \<Rightarrow> ('k \<times> 'v) list \<Rightarrow> ('k \<times> 'v) list" where
  "Map_set k v [] = [(k, v)]"
| "Map_set k v (e # m) = (if fst e = k then (k, v) # m else e # Map_set k v m)"

definition Map_delete :: "'k \<Rightarrow> ('k \<times> 'v) list \<Rightarrow> ('k \<times> 'v) list" where
  "Map_delete k m = filter (\<lambda>e. fst e \<noteq> k) m"

definition Map_values :: "('k \<times> 'v) list \<Rightarrow> 'v list" where
  "Map_values m = map snd m"

text \<open>
  Lines 886 to 905 of \<^verbatim>\<open>fetchNotifications\<close>: the local notifications are put into a
  fresh map, then each fetched notification deletes its key when it is dismissed and is
  stored under its key otherwise; the merged list is the map's values.
\<close>

definition add_local :: "(string \<times> notification) list \<Rightarrow> notification \<Rightarrow> (string \<times> notification) list" where
  "add_local m n = Map_set (nid n) n m"

definition apply_fetched :: "(string \<times> notification) list \<Rightarrow> notification \<Rightarrow> (string \<times> notification) list" where
  "apply_fetched m n = (if dismissed n then Map_delete (nid n) m else Map_set (nid n) n m)"

definition merge :: "notification list \<Rightarrow> notification list \<Rightarrow> notification list" where
  "merge localNotifications fetchedNotifications =
     Map_values (foldl apply_fetched (foldl add_local [] localNotifications) fetchedNotifications)"

text \<open>
  The merge rule as the specification words it, on a mathematical map keyed by id: insert
  each local notification, then for each remote entry delete the key if the entry carries
  the dismissed flag and upsert it otherwise. The result is the value set \<open>ran\<close> of the map.
\<close>

definition spec_step :: "(string \<rightharpoonup> notification) \<Rightarrow> notification \<Rightarrow> (string \<rightharpoonup> notification)" where
  "spec_step m n = (if dismissed n then m(nid n := None) else m(nid n \<mapsto> n))"

definition spec_merge :: "notification list \<Rightarrow> notification list \<Rightarrow> (string \<rightharpoonup> notification)" where
  "spec_merge local remote =
     foldl spec_step (foldl (\<lambda>m n. m(nid n \<mapsto> n)) Map.empty local) remote"

section \<open>Configuration and the two storages\<close>

text \<open>
  The effective configuration (\<^verbatim>\<open>this.config\<close>). \<open>subscriberId\<close>, \<open>widgetKey\<close> and
  \<open>targetElement\<close> default to \<^verbatim>\<open>null\<close>, which is \<open>None\<close>. Intervals and durations are
  whole seconds, as the documentation of the constructor gives them.
\<close>

record config =
  serviceUrl :: string
  subscriberId :: "string option"
  widgetKey :: "string option"
  locationId :: string
  widgetTitle :: string
  audioAlert :: bool
  audioReminder :: bool
  reminderInterval :: int
  toastAlert :: bool
  toastPosition :: string
  toastDuration :: int
  width :: string
  height :: string
  showInboxOnLoad :: bool
  refreshInterval :: int
  branded :: bool
  compact :: bool
  targetElement :: "string option"

definition defaultConfig :: config where
  "defaultConfig = \<lparr>serviceUrl = ''https://app.notiphy.me'', subscriberId = None,
     widgetKey = None, locationId = ''default'', widgetTitle = ''Inbox'', audioAlert = False,
     audioReminder = False, reminderInterval = 180, toastAlert = False,
     toastPosition = ''bottom-right'', toastDuration = 4, width = ''300px'',
     height = ''400px'', showInboxOnLoad = False, refreshInterval = 0, branded = True,
     compact = False, targetElement = None\<rparr>"

text \<open>
  The object the embedding page passes to the constructor: every key may be missing.
  A key given as \<^verbatim>\<open>null\<close> for one of the three nullable fields reads the same as a
  missing one.
\<close>

record options =
  o_serviceUrl :: "string option"
  o_subscriberId :: "string option"
  o_widgetKey :: "string option"
  o_locationId :: "string option"
  o_widgetTitle :: "string option"
  o_audioAlert :: "bool option"
  o_audioReminder :: "bool option"
  o_reminderInterval :: "int option"
  o_toastAlert :: "bool option"
  o_toastPosition :: "string option"
  o_toastDuration :: "int option"
  o_width :: "string option"
  o_height :: "string option"
  o_showInboxOnLoad :: "bool option"
  o_refreshInterval :: "int option"
  o_branded :: "bool option"
  o_compact :: "bool option"
  o_targetElement :: "string option"

fun pick :: "'a \<Rightarrow> 'a option \<Rightarrow> 'a" where
  "pick d None = d"
| "pick d (Some v) = v"

fun pick_nullable :: "'a option \<Rightarrow> 'a option \<Rightarrow> 'a option" where
  "pick_nullable d None = d"
| "pick_nullable d (Some v) = Some v"

text \<open>\<^verbatim>\<open>{ ...this.defaultConfig, ...config }\<close>: a key of the caller replaces the default.\<close>

definition spread :: "config \<Rightarrow> options \<Rightarrow> config" where
  "spread d c = \<lparr>serviceUrl = pick (serviceUrl d) (o_serviceUrl c),
     subscriberId = pick_nullable (subscriberId d) (o_subscriberId c),
     widgetKey = pick_nullable (widgetKey d) (o_widgetKey c),
     locationId = pick (locationId d) (o_locationId c),
     widgetTitle = pick (widgetTitle d) (o_widgetTitle c),
     audioAlert = pick (audioAlert d) (o_audioAlert c),
     audioReminder = pick (audioReminder d) (o_audioReminder c),
     reminderInterval = pick (reminderInterval d) (o_reminderInterval c),
     toastAlert = pick (toastAlert d) (o_toastAlert c),
     toastPosition = pick (toastPosition d) (o_toastPosition c),
     toastDuration = pick (toastDuration d) (o_toastDuration c),
     width = pick (width d) (o_width c),
     height = pick (height d) (o_height c),
     showInboxOnLoad = pick (showInboxOnLoad d) (o_showInboxOnLoad c),
     refreshInterval = pick (refreshInterval d) (o_refreshInterval c),
     branded = pick (branded d) (o_branded c),
     compact = pick (compact d) (o_compact c),
     targetElement = pick_nullable (targetElement d) (o_targetElement c)\<rparr>"

text \<open>
  The browser storages the widget uses: \<^verbatim>\<open>localStorage.notiphySettings\<close> (durable
  settings), \<^verbatim>\<open>sessionStorage.notiphyWidgetNotifications\<close> (the session cache) and
  \<^verbatim>\<open>localStorage.notiphyWidgetLastFetched\<close> (the watermark). \<open>None\<close> is a key that is
  not set; the stored JSON is taken to be well formed.
\<close>

record storage =
  notiphySettings :: "config option"
  notiphyWidgetNotifications :: "notification list option"
  notiphyWidgetLastFetched :: "int option"

definition saveSettings :: "config \<Rightarrow> storage \<Rightarrow> storage" where
  "saveSettings cfg st = st\<lparr>notiphySettings := Some cfg\<rparr>"

definition loadNotifications :: "storage \<Rightarrow> notification list" where
  "loadNotifications st = (case notiphyWidgetNotifications st of None \<Rightarrow> [] | Some ns \<Rightarrow> ns)"

definition loadSettings :: "config \<Rightarrow> storage \<Rightarrow> config option" where
  "loadSettings initialConfig st =
     (case notiphySettings st of
        None \<Rightarrow> None
      | Some parsedSettings \<Rightarrow>
          Some (if locationId initialConfig \<noteq> locationId parsedSettings
                then parsedSettings\<lparr>locationId := locationId initialConfig\<rparr>
                else parsedSettings))"

definition saveNotifications :: "notification list \<Rightarrow> storage \<Rightarrow> storage" where
  "saveNotifications ns st = st\<lparr>notiphyWidgetNotifications := Some ns\<rparr>"

definition clearStoredData :: "storage \<Rightarrow> storage" where
  "clearStoredData st = st\<lparr>notiphyWidgetNotifications := None, notiphyWidgetLastFetched := None\<rparr>"

definition checkLocationChange :: "config \<Rightarrow> storage \<Rightarrow> storage" where
  "checkLocationChange cfg st =
     (case notiphySettings st of
        None \<Rightarrow> st
      | Some storedSettings \<Rightarrow>
          if locationId cfg \<noteq> locationId storedSettings then clearStoredData st else st)"

text \<open>
  \<^verbatim>\<open>updateLocalNotification(id, { read: true })\<close> rewrites the cached entry with that id
  and saves only when it found one; \<^verbatim>\<open>removeLocalNotification\<close> filters and always
  saves.
\<close>

fun set_read_first :: "string \<Rightarrow> notification list \<Rightarrow> notification list" where
  "set_read_first i [] = []"
| "set_read_first i (n # ns) = (if nid n = i then n\<lparr>read := True\<rparr> # ns else n # set_read_first i ns)"

definition updateLocalNotification :: "string \<Rightarrow> storage \<Rightarrow> storage" where
  "updateLocalNotification notificationId st =
     (let ns = loadNotifications st
      in if \<exists>n \<in> set ns. nid n = notificationId
         then saveNotifications (set_read_first notificationId ns) st
         else st)"

definition removeLocalNotification :: "string \<Rightarrow> storage \<Rightarrow> storage" where
  "removeLocalNotification notificationId st =
     saveNotifications (filter (\<lambda>n. nid n \<noteq> notificationId) (loadNotifications st)) st"

section \<open>The widget\<close>

text \<open>
  An entry of the inbox as \<^verbatim>\<open>assembleNotification\<close> builds it: its two buttons carry
  \<^verbatim>\<open>data-notification-id\<close>, the mark-read button has the class \<^verbatim>\<open>open\<close> and the entry
  the class \<^verbatim>\<open>notiphy-read\<close> when the notification is read.
\<close>

record element =
  data_notification_id :: string
  btn_open :: bool
  notiphy_read :: bool
  shown :: notification

definition assembleNotification :: "notification \<Rightarrow> element" where
  "assembleNotification n =
     \<lparr>data_notification_id = nid n, btn_open = read n, notiphy_read = read n, shown = n\<rparr>"

datatype sock = SockConnected | SockDisconnected | SockConnecting

datatype js_error = TypeError | SyntaxError | NetworkFailure | RequestFailed int

datatype log_line = Caught string js_error

text \<open>
  The state of a constructed widget: the fields of the object, the parts of the document
  it reads back (the inbox entries, the two counters, the connection indicator, the
  blocker modal, the toasts), the pending \<^verbatim>\<open>setTimeout\<close> callbacks of
  \<^verbatim>\<open>handleNotification\<close>, the storages, the events sent on the socket and the lines of
  \<^verbatim>\<open>console.error\<close>. \<open>socket = None\<close> is \<^verbatim>\<open>this.socket === null\<close>, its value until the
  Socket.IO script has loaded. The counters are the numbers written into the two
  \<^verbatim>\<open>stats\<close> elements, which the code parses back with \<^verbatim>\<open>parseInt\<close>.
  \<open>reminderIntervalId\<close> holds the delay in milliseconds that was handed to \<^verbatim>\<open>setInterval\<close>
  for the reminder timer that is running, \<open>None\<close> when there is none. Sounds, icons and animations are left out.
\<close>

record widget =
  config :: config
  notifications :: "notification list"
  socket :: "sock option"
  notificationsLoaded :: bool
  reminderIntervalId :: "int option"
  inbox :: "element list"
  unreadCount :: int
  totalCount :: int
  connectionText :: string
  indicatorTitle :: string
  indicatorConnected :: bool
  centerOpen :: bool
  blockerModal :: "(string \<times> string) option"
  toaster :: "notification list"
  timeouts :: "(int \<times> notification) list"
  stor :: storage
  emitted :: "(string \<times> string) list"
  console :: "log_line list"

definition updateUnreadCount :: "int \<Rightarrow> widget \<Rightarrow> widget" where
  "updateUnreadCount c w = w\<lparr>unreadCount := c\<rparr>"

definition updateTotalCount :: "int \<Rightarrow> widget \<Rightarrow> widget" where
  "updateTotalCount c w = w\<lparr>totalCount := c\<rparr>"

definition addToNotiphyCenter :: "notification \<Rightarrow> widget \<Rightarrow> widget" where
  "addToNotiphyCenter n w =
     (let w1 = w\<lparr>inbox := assembleNotification n # inbox w\<rparr>;
          w2 = (if \<not> read n then updateUnreadCount (unreadCount w1 + 1) w1 else w1)
      in w2\<lparr>totalCount := totalCount w2 + 1\<rparr>)"

definition updateStatsAfterDismissal :: "bool \<Rightarrow> widget \<Rightarrow> widget" where
  "updateStatsAfterDismissal isRead w =
     (let w1 = (if \<not> isRead then updateUnreadCount (max 0 (unreadCount w - 1)) w else w)
      in w1\<lparr>totalCount := max 0 (totalCount w1 - 1)\<rparr>)"

definition updateStatsAfterMarkRead :: "bool \<Rightarrow> widget \<Rightarrow> widget" where
  "updateStatsAfterMarkRead isRead w =
     (if \<not> isRead then updateUnreadCount (max 0 (unreadCount w - 1)) w else w)"

fun mark_first :: "string \<Rightarrow> element list \<Rightarrow> element list" where
  "mark_first i [] = []"
| "mark_first i (e # es) =
     (if data_notification_id e = i then e\<lparr>btn_open := True, notiphy_read := True\<rparr> # es
      else e # mark_first i es)"

text \<open>
  The handlers of the realtime events \<^verbatim>\<open>mark-read\<close> and \<^verbatim>\<open>dismiss\<close>. The mark-read
  button they look for is the first one in the document with the id, that of the topmost
  inbox entry with it. With no such entry the handler leaves the state as it is: it
  returns early when nothing in the document carries the id, and when only a toast does,
  the missing button raises a \<^verbatim>\<open>TypeError\<close> before anything was changed. A dismissal
  removes every entry and every toast with the id, and counts once.
\<close>

definition handleMarkedReadNotification :: "string \<Rightarrow> widget \<Rightarrow> widget" where
  "handleMarkedReadNotification notificationid w =
     (case find (\<lambda>e. data_notification_id e = notificationid) (inbox w) of
        None \<Rightarrow> w
      | Some markReadButton \<Rightarrow>
          (let isRead = btn_open markReadButton;
               w1 = (if \<not> isRead then w\<lparr>inbox := mark_first notificationid (inbox w)\<rparr> else w);
               w2 = updateStatsAfterMarkRead isRead w1
           in w2\<lparr>stor := updateLocalNotification notificationid (stor w2)\<rparr>))"

definition handleDismissedNotification :: "string \<Rightarrow> widget \<Rightarrow> widget" where
  "handleDismissedNotification notificationId w =
     (case find (\<lambda>e. data_notification_id e = notificationId) (inbox w) of
        None \<Rightarrow> w
      | Some markReadButton \<Rightarrow>
          (let isRead = btn_open markReadButton;
               w1 = w\<lparr>inbox := filter (\<lambda>e. data_notification_id e \<noteq> notificationId) (inbox w),
                      toaster := filter (\<lambda>n. nid n \<noteq> notificationId) (toaster w)\<rparr>;
               w2 = updateStatsAfterDismissal isRead w1
           in w2\<lparr>stor := removeLocalNotification notificationId (stor w2)\<rparr>))"

subsection \<open>Delivery of an inbound notification\<close>


definition closeModal :: "widget \<Rightarrow> widget" where
  "closeModal w = w\<lparr>blockerModal := None\<rparr>"




subsection \<open>Settings toggles, connection and timers\<close>

text \<open>
  The timers are the runtime's, not the repository's. A browser reads the delay of
  \<^verbatim>\<open>setInterval\<close> as a signed 32-bit integer, wrapping modulo \<open>2^32\<close>, and takes a
  negative delay as 0; Node takes every delay below 1 or above \<open>2^31 - 1\<close> as 1.
  \<open>setInterval_delay\<close> is the delay in milliseconds that the runtime keeps for the timer,
  given the delay it was handed; the minimum of a few milliseconds that a runtime has for
  delays near 0 is left out.
\<close>

datatype runtime = Browser_timers | Node_timers

definition ToInt32 :: "int \<Rightarrow> int" where
  "ToInt32 d = (d + 2147483648) mod 4294967296 - 2147483648"

definition setInterval_delay :: "runtime \<Rightarrow> int \<Rightarrow> int" where
  "setInterval_delay rt d =
     (case rt of
        Browser_timers \<Rightarrow> max 0 (ToInt32 d)
      | Node_timers \<Rightarrow> (if d < 1 \<or> 2147483647 < d then 1 else d))"

text \<open>
  \<^verbatim>\<open>setupPeriodicRefresh\<close> starts no timer for an interval of 0 and otherwise hands
  \<^verbatim>\<open>Math.max(300000, refreshInterval * 1000)\<close> to \<^verbatim>\<open>setInterval\<close>; the result is the
  period in milliseconds that the refresh then runs with.
\<close>

definition setupPeriodicRefresh :: "runtime \<Rightarrow> config \<Rightarrow> int option" where
  "setupPeriodicRefresh rt cfg =
     (let r = refreshInterval cfg
      in if r \<noteq> 0 then Some (setInterval_delay rt (max 300000 (r * 1000))) else None)"

definition setupAudioReminders :: "widget \<Rightarrow> widget" where
  "setupAudioReminders w =
     (let r = (if reminderInterval (config w) \<noteq> 0 then reminderInterval (config w) else 180)
      in if audioReminder (config w) \<and> reminderIntervalId w = None
         then w\<lparr>reminderIntervalId := Some (r * 1000)\<rparr>
         else w)"

definition toggleAudioReminder :: "widget \<Rightarrow> widget" where
  "toggleAudioReminder w =
     (let w1 = w\<lparr>config := (config w)\<lparr>audioReminder := \<not> audioReminder (config w)\<rparr>\<rparr>;
          w2 = (if audioReminder (config w1) then setupAudioReminders w1
                else w1\<lparr>reminderIntervalId := None\<rparr>)
      in w2\<lparr>stor := saveSettings (config w2) (stor w2)\<rparr>)"

definition updateConnectionStatus :: "string \<Rightarrow> widget \<Rightarrow> widget" where
  "updateConnectionStatus status w =
     w\<lparr>connectionText := status, indicatorTitle := status,
       indicatorConnected := \<not> indicatorConnected w\<rparr>"

definition toggleNotificationCenter :: "widget \<Rightarrow> widget" where
  "toggleNotificationCenter w = w\<lparr>centerOpen := \<not> centerOpen w\<rparr>"

text \<open>
  \<^verbatim>\<open>toggleConnection\<close> reads \<^verbatim>\<open>this.socket.connected\<close>, which raises while the socket is
  still \<^verbatim>\<open>null\<close>. Socket.IO is not part of the repository: its \<^verbatim>\<open>disconnect()\<close> is taken
  to run the \<^verbatim>\<open>disconnect\<close> listener of \<^verbatim>\<open>onSocketIoLoaded\<close> before it returns, which sets
  the status to \<open>Offline\<close>, and its \<^verbatim>\<open>connect()\<close> to start a connection attempt.
\<close>

definition toggleConnection :: "widget \<Rightarrow> js_error + widget" where
  "toggleConnection w =
     (case socket w of
        None \<Rightarrow> Inl TypeError
      | Some s \<Rightarrow>
          if s = SockConnected
          then Inr (updateConnectionStatus ''Offline'' (w\<lparr>socket := Some SockDisconnected\<rparr>))
          else Inr (w\<lparr>socket := Some SockConnecting\<rparr>))"

subsection \<open>Fetching and merging\<close>

text \<open>
  What the backend's answer to the listing request can be: the request fails (the
  promise of \<^verbatim>\<open>fetch\<close> rejects), it comes back with a status outside 200..299
  (\<^verbatim>\<open>response.ok\<close> is false), or it comes back with the JSON array.
\<close>

datatype response = NetworkError | Status_not_ok int | Ok_json "notification list"

definition errorNotification :: "int \<Rightarrow> notification" where
  "errorNotification now =
     \<lparr>nid = ''0'', title = ''Notiphy.me API Key Error'',
      ntext = ''The Notiphy.me API key provided is invalid. Please check your Notiphy.me dashboard for more information.'',
      alertLevel = Some ''error'', read = False, dismissed = False,
      actionUrl = Some ''https://notiphy.me/dashboard/api-keys'', ts = now\<rparr>"

text \<open>
  \<^verbatim>\<open>fetchNotifications\<close> reads the cached notifications and the watermark before it
  awaits the request; \<open>fetchNotifications_request\<close> is that first part and gives the
  local list and the \<^verbatim>\<open>lastFetched\<close> parameter of the request.
  \<open>fetchNotifications_response\<close> is the rest, run when the answer arrives at the time
  \<open>now\<close> (milliseconds), on the state the widget has then. Every exception raised inside
  the \<^verbatim>\<open>try\<close> block ends in the \<^verbatim>\<open>catch\<close>, which logs it.
\<close>

definition fetchNotifications_request :: "widget \<Rightarrow> notification list \<times> int" where
  "fetchNotifications_request w =
     (loadNotifications (stor w),
      (case notiphyWidgetLastFetched (stor w) of None \<Rightarrow> 0 | Some t \<Rightarrow> t))"

definition log_error :: "log_line \<Rightarrow> widget \<Rightarrow> widget" where
  "log_error l w = w\<lparr>console := console w @ [l]\<rparr>"

text \<open>
  The branch of a status that is not a success, up to the exception that leaves the
  \<^verbatim>\<open>try\<close> block: the exception and the state it leaves. When \<^verbatim>\<open>toggleConnection\<close>
  raises, the lines after it are not run.
\<close>

definition fetch_not_ok :: "int \<Rightarrow> int \<Rightarrow> widget \<Rightarrow> js_error \<times> widget" where
  "fetch_not_ok now status w =
     (let notification = errorNotification now;
          w1 = addToNotiphyCenter notification w
      in case toggleConnection w1 of
           Inl e \<Rightarrow> (e, w1)
         | Inr w2 \<Rightarrow>
             (RequestFailed status,
              if audioReminder (config w2) then toggleAudioReminder w2 else w2))"

definition fetch_succeeded :: "notification list \<Rightarrow> int \<Rightarrow> notification list \<Rightarrow> widget \<Rightarrow> widget" where
  "fetch_succeeded localNotifications now fetchedNotifications w =
     (let merged = merge localNotifications fetchedNotifications;
          w1 = w\<lparr>notifications := merged, stor := saveNotifications merged (stor w)\<rparr>;
          w2 = updateTotalCount 0 (updateUnreadCount 0 (w1\<lparr>inbox := []\<rparr>));
          w3 = foldl (\<lambda>v n. addToNotiphyCenter n v) w2 merged;
          w4 = (if \<not> notificationsLoaded w3 \<and> showInboxOnLoad (config w3)
                then toggleNotificationCenter w3 else w3)
      in w4\<lparr>notificationsLoaded := True,
            stor := (stor w4)\<lparr>notiphyWidgetLastFetched := Some (now div 1000)\<rparr>\<rparr>)"

definition fetchNotifications_response ::
  "notification list \<Rightarrow> int \<Rightarrow> response \<Rightarrow> widget \<Rightarrow> widget" where
  "fetchNotifications_response localNotifications now resp w =
     (case resp of
        NetworkError \<Rightarrow> log_error (Caught ''Failed to fetch notifications:'' NetworkFailure) w
      | Status_not_ok status \<Rightarrow>
          (let (e, w1) = fetch_not_ok now status w
           in log_error (Caught ''Failed to fetch notifications:'' e) w1)
      | Ok_json data \<Rightarrow> fetch_succeeded localNotifications now data w)"

subsection \<open>The user's mark-read and dismiss\<close>

text \<open>
  The answer of the backend to one of the two POST requests. The \<^verbatim>\<open>then\<close> chain parses
  the body as JSON and never looks at the status. \<open>Json_body ok\<close> is an answer whose
  body parses to a JSON value other than \<^verbatim>\<open>null\<close> and \<open>Json_null ok\<close> one whose body is
  the JSON \<^verbatim>\<open>null\<close>, \<open>ok\<close> telling whether the status was a success. A request that
  fails on the network and a body that does not parse reject the promise, and no handler
  is attached for that; with a \<^verbatim>\<open>null\<close> body the callback raises at
  \<^verbatim>\<open>console.log(data.message)\<close>, its first line, before anything is sent or changed.
\<close>

datatype reply = Request_rejected | Body_not_json | Json_null bool | Json_body bool

text \<open>
  The target of a click is the button of the inbox entry at position \<open>i\<close>; the id comes
  from its attribute. \<^verbatim>\<open>markRead\<close> changes the entry and the unread counter before it
  sends the request (\<open>markRead_before\<close>); its \<^verbatim>\<open>then\<close> callback sends the realtime event
  and updates the cache (\<open>markRead_then\<close>). \<^verbatim>\<open>dismissNotification\<close> does everything in
  its \<^verbatim>\<open>then\<close> callback. Both are given here with the answer arriving before any other
  event. \<^verbatim>\<open>this.socket.emit\<close> raises while the socket is \<^verbatim>\<open>null\<close>, which ends the
  callback.
\<close>

definition markRead_before :: "nat \<Rightarrow> widget \<Rightarrow> widget" where
  "markRead_before i w =
     (let targetElement = inbox w ! i;
          w1 = w\<lparr>inbox := (inbox w)[i := targetElement\<lparr>btn_open := True\<rparr>]\<rparr>;
          w2 = updateUnreadCount (max 0 (unreadCount w1 - 1)) w1
      in w2\<lparr>inbox := (inbox w2)[i := (inbox w2 ! i)\<lparr>notiphy_read := True\<rparr>]\<rparr>)"

definition markRead_then :: "string \<Rightarrow> reply \<Rightarrow> widget \<Rightarrow> widget" where
  "markRead_then notificationId r w =
     (case r of
        Json_body ok \<Rightarrow>
          (case socket w of
             None \<Rightarrow> w
           | Some s \<Rightarrow>
               (let w1 = w\<lparr>emitted := emitted w @ [(''markReadNotification'', notificationId)]\<rparr>
                in w1\<lparr>stor := updateLocalNotification notificationId (stor w1)\<rparr>))
      | _ \<Rightarrow> w)"

definition markRead :: "nat \<Rightarrow> reply \<Rightarrow> widget \<Rightarrow> widget" where
  "markRead i r w =
     (if i < length (inbox w)
      then markRead_then (data_notification_id (inbox w ! i)) r (markRead_before i w)
      else w)"

definition dismissNotification :: "nat \<Rightarrow> reply \<Rightarrow> widget \<Rightarrow> widget" where
  "dismissNotification i r w =
     (if i < length (inbox w)
      then (case r of
              Json_body ok \<Rightarrow>
                (case socket w of
                   None \<Rightarrow> w
                 | Some s \<Rightarrow>
                     (let targetElement = inbox w ! i;
                          notificationId = data_notification_id targetElement;
                          w1 = w\<lparr>emitted := emitted w @ [(''dismissNotification'', notificationId)]\<rparr>;
                          w2 = updateTotalCount (max 0 (totalCount w1 - 1)) w1;
                          w3 = (if \<not> notiphy_read targetElement
                                then updateUnreadCount (max 0 (unreadCount w2 - 1)) w2 else w2);
                          w4 = w3\<lparr>inbox := take i (inbox w3) @ drop (Suc i) (inbox w3)\<rparr>
                      in w4\<lparr>stor := removeLocalNotification notificationId (stor w4)\<rparr>))
            | _ \<Rightarrow> w)
      else w)"

section \<open>The constructor\<close>

text \<open>
  What the widget takes from the page and the runtime that host it: the timers, and
  what \<^verbatim>\<open>document.querySelector\<close> answers for the selector of the target element (an
  element, nothing, or a \<^verbatim>\<open>SyntaxError\<close> for a string that is no selector). The page is
  taken to have a body and no other widget in it, and titles and texts are display strings
  that carry no markup.
\<close>

datatype lookup = Matches | No_match | Bad_selector

record host =
  timers :: runtime
  querySelector :: "string \<Rightarrow> lookup"

text \<open>
  \<open>initialDom\<close> is the state that \<^verbatim>\<open>createDomElements\<close> leaves when it runs to its end: an
  empty inbox, both counters at 0, the indicator titled \<open>Offline\<close>, no modal and no
  toast. In compact mode with a target element, \<^verbatim>\<open>createDomElements\<close> looks the target up
  (lines 264 to 271). When the page has no such element it warns and attaches neither the
  icon nor the inbox, so that the settings button it looks for next is not in the
  document and \<^verbatim>\<open>settingsButton.addEventListener\<close> (line 280) raises a \<^verbatim>\<open>TypeError\<close>.
\<close>

definition initialDom :: "config \<Rightarrow> notification list \<Rightarrow> storage \<Rightarrow> widget" where
  "initialDom cfg ns st =
     \<lparr>config = cfg, notifications = ns, socket = None, notificationsLoaded = False,
      reminderIntervalId = None, inbox = [], unreadCount = 0, totalCount = 0,
      connectionText = [], indicatorTitle = ''Offline'', indicatorConnected = False,
      centerOpen = False, blockerModal = None, toaster = [], timeouts = [], stor = st,
      emitted = [], console = []\<rparr>"

definition createDomElements ::
  "host \<Rightarrow> config \<Rightarrow> notification list \<Rightarrow> storage \<Rightarrow> js_error + widget" where
  "createDomElements h cfg ns st =
     (case (if compact cfg then targetElement cfg else None) of
        None \<Rightarrow> Inr (initialDom cfg ns st)
      | Some sel \<Rightarrow>
          if sel = [] then Inr (initialDom cfg ns st)
          else (case querySelector h sel of
                  Matches \<Rightarrow> Inr (initialDom cfg ns st)
                | No_match \<Rightarrow> Inl TypeError
                | Bad_selector \<Rightarrow> Inl SyntaxError))"

text \<open>\<^verbatim>\<open>!x\<close> on a string that may be \<^verbatim>\<open>null\<close>: true for \<^verbatim>\<open>null\<close> and for the empty string.\<close>

fun falsy :: "string option \<Rightarrow> bool" where
  "falsy None = True"
| "falsy (Some s) = (s = [])"

text \<open>
  What a run of the constructor leaves: the configuration it resolved, the storages,
  the lines of \<^verbatim>\<open>console.error\<close>, the exception it raised to its caller (if any), and,
  when it went past the two checks and \<^verbatim>\<open>createDomElements\<close>, the widget it built, the
  period in milliseconds of the refresh timer it started (if any) and the first request
  it sent (the local list and the watermark that request carries). What
  \<^verbatim>\<open>createDomElements\<close> had attached to the page before it raised (the Socket.IO script
  and the toaster) is not part of the result.
\<close>

record init =
  resolved :: config
  persisted :: storage
  errors :: "string list"
  raised :: "js_error option"
  ui :: "widget option"
  refreshTimer :: "int option"
  firstFetch :: "(notification list \<times> int) option"

definition construct :: "options \<Rightarrow> host \<Rightarrow> storage \<Rightarrow> init" where
  "construct opts h st =
     (let initialConfig = spread defaultConfig opts;
          cfg = (case loadSettings initialConfig st of None \<Rightarrow> initialConfig | Some s \<Rightarrow> s);
          ns = loadNotifications st;
          st1 = checkLocationChange cfg st;
          st2 = saveSettings cfg st1
      in if falsy (subscriberId cfg)
         then \<lparr>resolved = cfg, persisted = st2, errors = [''subscriberId is required.''],
               raised = None, ui = None, refreshTimer = None, firstFetch = None\<rparr>
         else if falsy (widgetKey cfg)
         then \<lparr>resolved = cfg, persisted = st2, errors = [''API Key is required.''],
               raised = None, ui = None, refreshTimer = None, firstFetch = None\<rparr>
         else (case createDomElements h cfg ns st2 of
                 Inl e \<Rightarrow>
                   \<lparr>resolved = cfg, persisted = st2, errors = [], raised = Some e, ui = None,
                    refreshTimer = None, firstFetch = None\<rparr>
               | Inr w0 \<Rightarrow>
                   (let w = setupAudioReminders w0
                    in \<lparr>resolved = cfg, persisted = st2, errors = [], raised = None,
                         ui = Some w, refreshTimer = setupPeriodicRefresh (timers h) cfg,
                         firstFetch = Some (fetchNotifications_request w)\<rparr>)))"

section \<open>Sequences of store mutations\<close>

text \<open>
  The three mutations of the inbox and its counters: \<^verbatim>\<open>addToNotiphyCenter\<close>, the
  dismissal of \<^verbatim>\<open>handleDismissedNotification\<close> and the mark-read of
  \<^verbatim>\<open>handleMarkedReadNotification\<close>.
\<close>

datatype mutation = Add notification | Remove string | MarkRead string

fun apply_mutation :: "widget \<Rightarrow> mutation \<Rightarrow> widget" where
  "apply_mutation w (Add n) = addToNotiphyCenter n w"
| "apply_mutation w (Remove i) = handleDismissedNotification i w"
| "apply_mutation w (MarkRead i) = handleMarkedReadNotification i w"

definition run :: "widget \<Rightarrow> mutation list \<Rightarrow> widget" where
  "run w ms = foldl apply_mutation w ms"

definition displayed_ids :: "widget \<Rightarrow> string list" where
  "displayed_ids w = map data_notification_id (inbox w)"

text \<open>Every \<open>Add\<close> of the sequence carries an id that the inbox does not show at that point.\<close>

fun adds_fresh :: "widget \<Rightarrow> mutation list \<Rightarrow> bool" where
  "adds_fresh w [] = True"
| "adds_fresh w (Add n # ms) = (nid n \<notin> set (displayed_ids w) \<and> adds_fresh (addToNotiphyCenter n w) ms)"
| "adds_fresh w (Remove i # ms) = adds_fresh (handleDismissedNotification i w) ms"
| "adds_fresh w (MarkRead i # ms) = adds_fresh (handleMarkedReadNotification i w) ms"

definition unread_entries :: "widget \<Rightarrow> nat" where
  "unread_entries w = length (filter (\<lambda>e. \<not> notiphy_read e) (inbox w))"

section \<open>Sample inputs\<close>

text \<open>
  Concrete inputs for the examples: a notification with a given id, title, read flag and
  dismissed flag, a caller that passes nothing, empty storages, a page in a browser where
  no selector matches, the widget right after \<^verbatim>\<open>createDomElements\<close>, two page loads of the same subscriber at two locations with a
  session in between, a widget that has fetched one unread notification over a connected
  socket, and a widget with reminders on whose socket is not there yet.
\<close>

definition sample :: "string \<Rightarrow> string \<Rightarrow> bool \<Rightarrow> bool \<Rightarrow> notification" where
  "sample i t r d = \<lparr>nid = i, title = t, ntext = [], alertLevel = None, read = r,
     dismissed = d, actionUrl = None, ts = 0\<rparr>"

definition no_options :: options where
  "no_options = \<lparr>o_serviceUrl = None, o_subscriberId = None, o_widgetKey = None,
     o_locationId = None, o_widgetTitle = None, o_audioAlert = None, o_audioReminder = None,
     o_reminderInterval = None, o_toastAlert = None, o_toastPosition = None,
     o_toastDuration = None, o_width = None, o_height = None, o_showInboxOnLoad = None,
     o_refreshInterval = None, o_branded = None, o_compact = None, o_targetElement = None\<rparr>"

definition empty_storage :: storage where
  "empty_storage = \<lparr>notiphySettings = None, notiphyWidgetNotifications = None,
     notiphyWidgetLastFetched = None\<rparr>"

definition plain_host :: host where
  "plain_host = \<lparr>timers = Browser_timers, querySelector = (\<lambda>sel. No_match)\<rparr>"

definition fresh_widget :: widget where
  "fresh_widget = initialDom defaultConfig [] empty_storage"


definition compact_options :: options where
  "compact_options = no_options\<lparr>o_subscriberId := Some ''acme'', o_widgetKey := Some ''key'',
     o_refreshInterval := Some 600, o_compact := Some True, o_targetElement := Some ''#bell''\<rparr>"

definition first_options :: options where
  "first_options = no_options\<lparr>o_subscriberId := Some ''acme'', o_widgetKey := Some ''key'',
     o_locationId := Some ''north'', o_audioAlert := Some True\<rparr>"

definition second_options :: options where
  "second_options = no_options\<lparr>o_subscriberId := Some ''acme'', o_widgetKey := Some ''key'',
     o_locationId := Some ''south''\<rparr>"

definition between_runs :: storage where
  "between_runs = (persisted (construct first_options plain_host empty_storage))
     \<lparr>notiphyWidgetNotifications := Some [sample ''1'' ''hello'' False False],
      notiphyWidgetLastFetched := Some 1700000000\<rparr>"




definition reminder_options :: options where
  "reminder_options = no_options\<lparr>o_subscriberId := Some ''acme'', o_widgetKey := Some ''bad-key'',
     o_audioReminder := Some True\<rparr>"

definition started_widget :: widget where
  "started_widget = setupAudioReminders (initialDom (spread defaultConfig reminder_options) []
     (saveSettings (spread defaultConfig reminder_options) empty_storage))"

section \<open>Invariants of the inbox\<close>

text \<open>The mark-read button and its entry agree on whether the notification is read, and
  the two counters are the number of entries and the number of unread entries.\<close>

definition synced :: "widget \<Rightarrow> bool" where
  "synced w = list_all (\<lambda>e. btn_open e = notiphy_read e) (inbox w)"

definition counters_match :: "widget \<Rightarrow> bool" where
  "counters_match w =
     (totalCount w = int (length (inbox w)) \<and> unreadCount w = int (unread_entries w))"

section \<open>Properties of the merge\<close>

subsection \<open>The ordered map implements the mathematical map\<close>

lemma map_of_Map_set: "map_of (Map_set k v m) = (map_of m)(k \<mapsto> v)"
  by (induction m) (auto simp: fun_eq_iff)

lemma keys_Map_set: "fst ` set (Map_set k v m) = insert k (fst ` set m)"
  by (induction m) auto

lemma distinct_Map_set: "distinct (map fst m) \<Longrightarrow> distinct (map fst (Map_set k v m))"
  by (induction m) (auto simp: keys_Map_set)

lemma map_of_Map_delete: "map_of (Map_delete k m) = (map_of m)(k := None)"
  by (induction m) (auto simp: Map_delete_def fun_eq_iff)

lemma distinct_Map_delete: "distinct (map fst m) \<Longrightarrow> distinct (map fst (Map_delete k m))"
  by (simp add: Map_delete_def distinct_map_filter)

lemma map_of_apply_fetched: "map_of (apply_fetched m n) = spec_step (map_of m) n"
  by (simp add: apply_fetched_def spec_step_def map_of_Map_set map_of_Map_delete)

lemma distinct_apply_fetched:
  "distinct (map fst m) \<Longrightarrow> distinct (map fst (apply_fetched m n))"
  by (simp add: apply_fetched_def distinct_Map_set distinct_Map_delete)

lemma keyed_by_id_Map_set:
  "\<forall>e \<in> set m. fst e = nid (snd e) \<Longrightarrow> \<forall>e \<in> set (Map_set (nid n) n m). fst e = nid (snd e)"
  by (induction m) auto

lemma keyed_by_id_apply_fetched:
  "\<forall>e \<in> set m. fst e = nid (snd e) \<Longrightarrow> \<forall>e \<in> set (apply_fetched m n). fst e = nid (snd e)"
  using keyed_by_id_Map_set [of m n] by (auto simp: apply_fetched_def Map_delete_def)

lemma map_of_fold_local:
  "map_of (foldl add_local m xs) = foldl (\<lambda>m n. m(nid n \<mapsto> n)) (map_of m) xs"
  by (induction xs arbitrary: m) (simp_all add: add_local_def map_of_Map_set)

lemma distinct_fold_local:
  "distinct (map fst m) \<Longrightarrow> distinct (map fst (foldl add_local m xs))"
  by (induction xs arbitrary: m) (simp_all add: add_local_def distinct_Map_set)

lemma keyed_fold_local:
  "\<forall>e \<in> set m. fst e = nid (snd e) \<Longrightarrow> \<forall>e \<in> set (foldl add_local m xs). fst e = nid (snd e)"
proof (induction xs arbitrary: m)
  case Nil
  then show ?case by simp
next
  case (Cons x xs)
  have "\<forall>e \<in> set (add_local m x). fst e = nid (snd e)"
    using keyed_by_id_Map_set [OF Cons.prems] by (simp add: add_local_def)
  then show ?case using Cons.IH by simp
qed

lemma map_of_fold_fetched:
  "map_of (foldl apply_fetched m xs) = foldl spec_step (map_of m) xs"
  by (induction xs arbitrary: m) (simp_all add: map_of_apply_fetched)

lemma distinct_fold_fetched:
  "distinct (map fst m) \<Longrightarrow> distinct (map fst (foldl apply_fetched m xs))"
  by (induction xs arbitrary: m) (simp_all add: distinct_apply_fetched)

lemma keyed_fold_fetched:
  "\<forall>e \<in> set m. fst e = nid (snd e) \<Longrightarrow> \<forall>e \<in> set (foldl apply_fetched m xs). fst e = nid (snd e)"
proof (induction xs arbitrary: m)
  case Nil
  then show ?case by simp
next
  case (Cons x xs)
  have "\<forall>e \<in> set (apply_fetched m x). fst e = nid (snd e)"
    by (rule keyed_by_id_apply_fetched [OF Cons.prems])
  then show ?case using Cons.IH by simp
qed

lemma Map_set_fresh: "k \<notin> fst ` set m \<Longrightarrow> Map_set k v m = m @ [(k, v)]"
  by (induction m) auto

lemma fold_local_fresh:
  "distinct (map nid xs) \<Longrightarrow> nid ` set xs \<inter> fst ` set m = {} \<Longrightarrow>
   foldl add_local m xs = m @ map (\<lambda>n. (nid n, n)) xs"
proof (induction xs arbitrary: m)
  case Nil
  then show ?case by simp
next
  case (Cons x xs)
  have fresh: "nid x \<notin> fst ` set m" using Cons.prems(2) by auto
  have step: "add_local m x = m @ [(nid x, x)]"
    by (simp add: add_local_def Map_set_fresh [OF fresh])
  have "nid ` set xs \<inter> fst ` set (m @ [(nid x, x)]) = {}"
    using Cons.prems by auto
  with Cons.IH [of "m @ [(nid x, x)]"] Cons.prems(1) step show ?case by simp
qed

lemma merge_empty_remote: "distinct (map nid cached) \<Longrightarrow> merge cached [] = cached"
  using fold_local_fresh [of cached "[]"] by (simp add: merge_def Map_values_def comp_def)

lemma merged_map:
  "map_of (foldl apply_fetched (foldl add_local [] cached) fetched) = spec_merge cached fetched"
  by (simp add: map_of_fold_fetched map_of_fold_local spec_merge_def)

lemma merged_distinct:
  "distinct (map fst (foldl apply_fetched (foldl add_local [] cached) fetched))"
  by (simp add: distinct_fold_fetched distinct_fold_local)

lemma merged_keyed:
  "\<forall>e \<in> set (foldl apply_fetched (foldl add_local [] cached) fetched). fst e = nid (snd e)"
  by (rule keyed_fold_fetched, rule keyed_fold_local) simp

lemma set_merge: "set (merge cached fetched) = ran (spec_merge cached fetched)"
  using ran_distinct [OF merged_distinct, of cached fetched]
  by (simp add: merge_def Map_values_def merged_map)

lemma ids_merge: "nid ` set (merge cached fetched) = dom (spec_merge cached fetched)"
proof -
  let ?M = "foldl apply_fetched (foldl add_local [] cached) fetched"
  have "nid ` set (merge cached fetched) = fst ` set ?M"
    using merged_keyed [of cached fetched] by (force simp: merge_def Map_values_def image_iff)
  also have "\<dots> = dom (map_of ?M)" by (simp add: dom_map_of_conv_image_fst)
  finally show ?thesis by (simp add: merged_map)
qed

lemma keyed_map_ids:
  "\<forall>e \<in> set m. fst e = nid (snd e) \<Longrightarrow> map nid (Map_values m) = map fst m"
  by (induction m) (simp_all add: Map_values_def)

lemma distinct_ids_merge: "distinct (map nid (merge cached fetched))"
  unfolding merge_def keyed_map_ids [OF merged_keyed] by (rule merged_distinct)

lemma spec_steps_stay_deleted:
  "m k = None \<Longrightarrow> \<forall>x \<in> set post. nid x = k \<longrightarrow> dismissed x \<Longrightarrow>
   foldl spec_step m post k = None"
  by (induction post arbitrary: m) (auto simp: spec_step_def)

lemma dismissed_removed:
  assumes "dismissed r" and "\<forall>x \<in> set post. nid x = nid r \<longrightarrow> dismissed x"
  shows "nid r \<notin> nid ` set (merge cached (pre @ r # post))"
proof -
  let ?m = "foldl spec_step (foldl (\<lambda>m n. m(nid n \<mapsto> n)) Map.empty cached) pre"
  have "spec_step ?m r (nid r) = None" using assms(1) by (simp add: spec_step_def)
  then have "foldl spec_step (spec_step ?m r) post (nid r) = None"
    using assms(2) by (rule spec_steps_stay_deleted)
  then have "spec_merge cached (pre @ r # post) (nid r) = None"
    by (simp add: spec_merge_def)
  then show ?thesis by (simp add: ids_merge domIff)
qed

text \<open>
  C2, as the code has it. For every local list and every fetched list, the merged list
  of \<^verbatim>\<open>fetchNotifications\<close> holds exactly the values of the map that the specification
  describes (local entries inserted by id, then each fetched entry deleting its key when
  it is dismissed and replacing or adding it otherwise), one entry per id. Merging an
  empty fetched list gives back the local list when its ids are distinct. A fetched
  entry with the dismissed flag removes its id from the result when no later fetched
  entry with the same id comes without the flag.
\<close>

theorem merge_is_spec_value_set:
  "set (merge cached fetched) = ran (spec_merge cached fetched)
   \<and> distinct (map nid (merge cached fetched))
   \<and> (distinct (map nid cached) \<longrightarrow> merge cached [] = cached)
   \<and> (dismissed r \<and> (\<forall>x \<in> set post. nid x = nid r \<longrightarrow> dismissed x)
        \<longrightarrow> nid r \<notin> nid ` set (merge cached (pre @ r # post)))"
  using set_merge distinct_ids_merge merge_empty_remote dismissed_removed by blast

theorem merge_is_spec_value_set_witness:
  "set (merge [sample ''1'' ''a'' False False, sample ''2'' ''b'' True False] [sample ''1'' ''gone'' False True])
     = ran (spec_merge [sample ''1'' ''a'' False False, sample ''2'' ''b'' True False] [sample ''1'' ''gone'' False True])
   \<and> distinct (map nid [sample ''1'' ''a'' False False, sample ''2'' ''b'' True False])
   \<and> merge [sample ''1'' ''a'' False False, sample ''2'' ''b'' True False] []
       = [sample ''1'' ''a'' False False, sample ''2'' ''b'' True False]
   \<and> dismissed (sample ''1'' ''gone'' False True)
   \<and> merge [sample ''1'' ''a'' False False, sample ''2'' ''b'' True False] [sample ''1'' ''gone'' False True]
       = [sample ''2'' ''b'' True False]"
proof -
  have ids: "distinct (map nid [sample ''1'' ''a'' False False, sample ''2'' ''b'' True False])"
    by (simp add: sample_def)
  have gone: "dismissed (sample ''1'' ''gone'' False True)"
    by (simp add: sample_def)
  have run: "merge [sample ''1'' ''a'' False False, sample ''2'' ''b'' True False] [sample ''1'' ''gone'' False True]
       = [sample ''2'' ''b'' True False]"
    by (simp add: merge_def Map_values_def apply_fetched_def add_local_def Map_delete_def sample_def)
  show ?thesis
    using merge_is_spec_value_set [of "[sample ''1'' ''a'' False False, sample ''2'' ''b'' True False]"
        "[sample ''1'' ''gone'' False True]" "sample ''1'' ''gone'' False True" "[]" "[]"]
      ids gone run
    by simp
qed

text \<open>
  The two special cases do not hold for every list. A fetched list that carries an id
  twice, first dismissed and then not, keeps the id; a local list that carries an id
  twice loses the earlier entry even when nothing was fetched.
\<close>

theorem merge_dismissed_counterexample:
  "dismissed (sample ''1'' ''stale'' False True)
   \<and> sample ''1'' ''stale'' False True
        \<in> set [sample ''1'' ''stale'' False True, sample ''1'' ''live'' False False]
   \<and> nid (sample ''1'' ''stale'' False True)
        \<in> nid ` set (merge [] [sample ''1'' ''stale'' False True, sample ''1'' ''live'' False False])
   \<and> set (merge [sample ''1'' ''a'' False False, sample ''1'' ''b'' False False] [])
        \<noteq> set [sample ''1'' ''a'' False False, sample ''1'' ''b'' False False]"
  by (simp add: merge_def Map_values_def apply_fetched_def add_local_def Map_delete_def sample_def)

section \<open>Properties of the constructor\<close>

lemma construct_resolved:
  "resolved (construct opts h st) =
     (case loadSettings (spread defaultConfig opts) st of
        None \<Rightarrow> spread defaultConfig opts | Some s \<Rightarrow> s)"
  by (simp add: construct_def Let_def split: sum.splits)

lemma construct_persisted:
  "persisted (construct opts h st) =
     saveSettings (resolved (construct opts h st))
       (checkLocationChange (resolved (construct opts h st)) st)"
  by (simp add: construct_def Let_def split: sum.splits)

lemma construct_rejected:
  assumes "falsy (subscriberId (resolved (construct opts h st)))
           \<or> falsy (widgetKey (resolved (construct opts h st)))"
  shows "ui (construct opts h st) = None \<and> refreshTimer (construct opts h st) = None
       \<and> firstFetch (construct opts h st) = None
       \<and> raised (construct opts h st) = None
       \<and> errors (construct opts h st) =
           [if falsy (subscriberId (resolved (construct opts h st)))
            then ''subscriberId is required.'' else ''API Key is required.'']"
proof -
  obtain cfg where cfg: "resolved (construct opts h st) = cfg" by simp
  have c: "(case loadSettings (spread defaultConfig opts) st of
        None \<Rightarrow> spread defaultConfig opts | Some s \<Rightarrow> s) = cfg"
    using cfg by (simp add: construct_resolved)
  have "falsy (subscriberId cfg) \<or> falsy (widgetKey cfg)" using assms cfg by simp
  then show ?thesis unfolding cfg by (auto simp add: construct_def Let_def c)
qed

lemma construct_built:
  assumes "\<not> falsy (subscriberId (resolved (construct opts h st)))"
    and "\<not> falsy (widgetKey (resolved (construct opts h st)))"
    and "createDomElements h (resolved (construct opts h st)) (loadNotifications st)
           (persisted (construct opts h st)) = Inr w0"
  shows "ui (construct opts h st) = Some (setupAudioReminders w0)
       \<and> errors (construct opts h st) = []
       \<and> raised (construct opts h st) = None
       \<and> refreshTimer (construct opts h st)
           = setupPeriodicRefresh (timers h) (resolved (construct opts h st))
       \<and> firstFetch (construct opts h st)
           = Some (fetchNotifications_request (setupAudioReminders w0))"
proof -
  obtain cfg where cfg: "resolved (construct opts h st) = cfg" by simp
  obtain st2 where st2: "persisted (construct opts h st) = st2" by simp
  have c: "(case loadSettings (spread defaultConfig opts) st of
        None \<Rightarrow> spread defaultConfig opts | Some s \<Rightarrow> s) = cfg"
    using cfg by (simp add: construct_resolved)
  have p: "saveSettings cfg (checkLocationChange cfg st) = st2"
    using st2 cfg by (simp add: construct_persisted)
  have "\<not> falsy (subscriberId cfg)" "\<not> falsy (widgetKey cfg)"
    "createDomElements h cfg (loadNotifications st) st2 = Inr w0"
    using assms cfg st2 by simp_all
  then show ?thesis unfolding cfg by (simp add: construct_def Let_def c p)
qed

lemma construct_raised:
  assumes "\<not> falsy (subscriberId (resolved (construct opts h st)))"
    and "\<not> falsy (widgetKey (resolved (construct opts h st)))"
    and "createDomElements h (resolved (construct opts h st)) (loadNotifications st)
           (persisted (construct opts h st)) = Inl e"
  shows "ui (construct opts h st) = None \<and> raised (construct opts h st) = Some e
       \<and> refreshTimer (construct opts h st) = None
       \<and> firstFetch (construct opts h st) = None"
proof -
  obtain cfg where cfg: "resolved (construct opts h st) = cfg" by simp
  obtain st2 where st2: "persisted (construct opts h st) = st2" by simp
  have c: "(case loadSettings (spread defaultConfig opts) st of
        None \<Rightarrow> spread defaultConfig opts | Some s \<Rightarrow> s) = cfg"
    using cfg by (simp add: construct_resolved)
  have p: "saveSettings cfg (checkLocationChange cfg st) = st2"
    using st2 cfg by (simp add: construct_persisted)
  have "\<not> falsy (subscriberId cfg)" "\<not> falsy (widgetKey cfg)"
    "createDomElements h cfg (loadNotifications st) st2 = Inl e"
    using assms cfg st2 by simp_all
  then show ?thesis unfolding cfg by (simp add: construct_def Let_def c p)
qed

lemma createDomElements_built:
  "createDomElements h cfg ns st = Inr w0 \<Longrightarrow> w0 = initialDom cfg ns st"
  by (auto simp: createDomElements_def split: option.splits if_splits lookup.splits)

lemma createDomElements_plain:
  "\<not> compact cfg \<Longrightarrow> createDomElements h cfg ns st = Inr (initialDom cfg ns st)"
  by (simp add: createDomElements_def)

lemma request_of_built:
  "fetchNotifications_request (setupAudioReminders (initialDom cfg ns st))
     = (loadNotifications st, case notiphyWidgetLastFetched st of None \<Rightarrow> 0 | Some t \<Rightarrow> t)"
  by (simp add: fetchNotifications_request_def setupAudioReminders_def initialDom_def Let_def)

lemma construct_started:
  assumes "ui (construct opts h st) \<noteq> None"
  shows "ui (construct opts h st) =
           Some (setupAudioReminders (initialDom (resolved (construct opts h st))
                   (loadNotifications st) (persisted (construct opts h st))))
       \<and> errors (construct opts h st) = [] \<and> raised (construct opts h st) = None
       \<and> refreshTimer (construct opts h st)
           = setupPeriodicRefresh (timers h) (resolved (construct opts h st))
       \<and> firstFetch (construct opts h st) =
           Some (loadNotifications (persisted (construct opts h st)),
                 case notiphyWidgetLastFetched (persisted (construct opts h st)) of
                   None \<Rightarrow> 0 | Some t \<Rightarrow> t)"
proof -
  have ids: "\<not> falsy (subscriberId (resolved (construct opts h st)))"
    "\<not> falsy (widgetKey (resolved (construct opts h st)))"
    using construct_rejected [of opts h st] assms by blast+
  show ?thesis
  proof (cases "createDomElements h (resolved (construct opts h st)) (loadNotifications st)
           (persisted (construct opts h st))")
    case (Inl e)
    then show ?thesis using construct_raised [OF ids Inl] assms by simp
  next
    case (Inr w0)
    then show ?thesis
      using construct_built [OF ids Inr] createDomElements_built [OF Inr]
      by (simp add: request_of_built)
  qed
qed

lemma construct_plain:
  assumes "\<not> falsy (subscriberId (resolved (construct opts h st)))"
    and "\<not> falsy (widgetKey (resolved (construct opts h st)))"
    and "\<not> compact (resolved (construct opts h st))"
  shows "ui (construct opts h st) =
           Some (setupAudioReminders (initialDom (resolved (construct opts h st))
                   (loadNotifications st) (persisted (construct opts h st))))"
  using construct_built [OF assms(1,2) createDomElements_plain [OF assms(3)]] by simp

text \<open>
  In compact mode with a target that the page does not have, the constructor raises
  after the settings were saved, and starts no timer and sends no request.
\<close>

lemma compact_without_target:
  "raised (construct compact_options plain_host empty_storage) = Some TypeError
   \<and> ui (construct compact_options plain_host empty_storage) = None
   \<and> refreshTimer (construct compact_options plain_host empty_storage) = None
   \<and> firstFetch (construct compact_options plain_host empty_storage) = None
   \<and> notiphySettings (persisted (construct compact_options plain_host empty_storage))
       = Some (spread defaultConfig compact_options)"
  by (simp add: construct_def Let_def loadSettings_def empty_storage_def checkLocationChange_def
      saveSettings_def createDomElements_def spread_def compact_options_def no_options_def
      defaultConfig_def plain_host_def)

subsection \<open>The periodic refresh\<close>






text \<open>
  C6. When the subscriber id or the widget key of the resolved configuration is missing
  (\<^verbatim>\<open>null\<close> or empty), the constructor logs the configuration error and returns: no
  widget is built (no element, no reminder timer), no refresh timer is started, no
  request is sent and nothing is raised to the caller.
\<close>

theorem config_error_builds_nothing:
  assumes "falsy (subscriberId (resolved (construct opts h st)))
           \<or> falsy (widgetKey (resolved (construct opts h st)))"
  shows "ui (construct opts h st) = None \<and> refreshTimer (construct opts h st) = None
       \<and> firstFetch (construct opts h st) = None
       \<and> raised (construct opts h st) = None
       \<and> errors (construct opts h st) =
           [if falsy (subscriberId (resolved (construct opts h st)))
            then ''subscriberId is required.'' else ''API Key is required.'']"
  using assms by (rule construct_rejected)

theorem config_error_builds_nothing_witness:
  "falsy (subscriberId (resolved (construct (no_options\<lparr>o_widgetKey := Some ''key''\<rparr>) plain_host empty_storage)))
   \<and> ui (construct (no_options\<lparr>o_widgetKey := Some ''key''\<rparr>) plain_host empty_storage) = None
   \<and> refreshTimer (construct (no_options\<lparr>o_widgetKey := Some ''key''\<rparr>) plain_host empty_storage) = None
   \<and> firstFetch (construct (no_options\<lparr>o_widgetKey := Some ''key''\<rparr>) plain_host empty_storage) = None
   \<and> raised (construct (no_options\<lparr>o_widgetKey := Some ''key''\<rparr>) plain_host empty_storage) = None
   \<and> errors (construct (no_options\<lparr>o_widgetKey := Some ''key''\<rparr>) plain_host empty_storage)
       = [''subscriberId is required.'']"
proof -
  have h: "falsy (subscriberId (resolved (construct (no_options\<lparr>o_widgetKey := Some ''key''\<rparr>) plain_host empty_storage)))"
    by (simp add: construct_resolved loadSettings_def empty_storage_def spread_def
        defaultConfig_def no_options_def)
  show ?thesis
    using h config_error_builds_nothing [of "no_options\<lparr>o_widgetKey := Some ''key''\<rparr>" plain_host empty_storage]
    by simp
qed

text \<open>
  C10. The constructor writes the resolved configuration (the persisted settings when
  there are some, with the caller's location, and the defaults overridden by the caller
  otherwise) to the durable settings before it checks the two required fields: the
  settings are persisted also by a run that is rejected.
\<close>

theorem settings_saved_before_validation:
  "resolved (construct opts h st) =
     (case loadSettings (spread defaultConfig opts) st of
        None \<Rightarrow> spread defaultConfig opts | Some s \<Rightarrow> s)
   \<and> notiphySettings (persisted (construct opts h st)) = Some (resolved (construct opts h st))
   \<and> (falsy (subscriberId (resolved (construct opts h st)))
          \<or> falsy (widgetKey (resolved (construct opts h st)))
        \<longrightarrow> ui (construct opts h st) = None
            \<and> notiphySettings (persisted (construct opts h st))
                = Some (resolved (construct opts h st)))"
  using construct_rejected [of opts h st]
  by (simp add: construct_resolved construct_persisted saveSettings_def)

theorem settings_saved_before_validation_witness:
  "falsy (subscriberId (resolved (construct no_options plain_host empty_storage)))
   \<and> ui (construct no_options plain_host empty_storage) = None
   \<and> notiphySettings (persisted (construct no_options plain_host empty_storage)) = Some defaultConfig"
proof -
  have r: "resolved (construct no_options plain_host empty_storage) = defaultConfig"
    by (simp add: construct_resolved loadSettings_def empty_storage_def spread_def
        defaultConfig_def no_options_def)
  have h: "falsy (subscriberId (resolved (construct no_options plain_host empty_storage)))"
    unfolding r by (simp add: defaultConfig_def)
  show ?thesis
    using h r settings_saved_before_validation [of no_options plain_host empty_storage]
    by simp
qed

lemma resolved_from_settings:
  "notiphySettings st = Some p \<Longrightarrow>
   resolved (construct opts h st) = p\<lparr>locationId := locationId (spread defaultConfig opts)\<rparr>"
  by (simp add: construct_resolved loadSettings_def)

text \<open>
  C5. When durable settings are present, the resolved configuration is the persisted one
  in every field but \<open>locationId\<close>, which is the caller's (or the default when the caller
  gives none), and that is what is written back. When the caller's location differs from
  the persisted one, the session cache and the watermark are cleared, so that the first
  request of a widget that starts carries an empty local list and the watermark 0; when
  the location is the same both are left as they were.
\<close>

theorem persisted_settings_override:
  assumes "notiphySettings st = Some p"
  shows "resolved (construct opts h st) = p\<lparr>locationId := pick ''default'' (o_locationId opts)\<rparr>
     \<and> notiphySettings (persisted (construct opts h st))
         = Some (p\<lparr>locationId := pick ''default'' (o_locationId opts)\<rparr>)
     \<and> (pick ''default'' (o_locationId opts) \<noteq> locationId p \<longrightarrow>
           notiphyWidgetNotifications (persisted (construct opts h st)) = None
         \<and> notiphyWidgetLastFetched (persisted (construct opts h st)) = None
         \<and> (ui (construct opts h st) \<noteq> None \<longrightarrow> firstFetch (construct opts h st) = Some ([], 0)))
     \<and> (pick ''default'' (o_locationId opts) = locationId p \<longrightarrow>
           notiphyWidgetNotifications (persisted (construct opts h st)) = notiphyWidgetNotifications st
         \<and> notiphyWidgetLastFetched (persisted (construct opts h st)) = notiphyWidgetLastFetched st)"
proof -
  let ?l = "pick ''default'' (o_locationId opts)"
  have l: "locationId (spread defaultConfig opts) = ?l"
    by (simp add: spread_def defaultConfig_def)
  have r: "resolved (construct opts h st) = p\<lparr>locationId := ?l\<rparr>"
    using resolved_from_settings [OF assms, of opts h] l by simp
  have p: "persisted (construct opts h st)
      = saveSettings (p\<lparr>locationId := ?l\<rparr>) (checkLocationChange (p\<lparr>locationId := ?l\<rparr>) st)"
    using construct_persisted [of opts h st] r by simp
  have s: "notiphySettings (persisted (construct opts h st)) = Some (p\<lparr>locationId := ?l\<rparr>)"
    by (simp add: p saveSettings_def)
  have changed: "notiphyWidgetNotifications (persisted (construct opts h st)) = None
      \<and> notiphyWidgetLastFetched (persisted (construct opts h st)) = None" if "?l \<noteq> locationId p"
    using that assms by (simp add: p saveSettings_def checkLocationChange_def clearStoredData_def)
  have same: "notiphyWidgetNotifications (persisted (construct opts h st)) = notiphyWidgetNotifications st
      \<and> notiphyWidgetLastFetched (persisted (construct opts h st)) = notiphyWidgetLastFetched st"
    if "?l = locationId p"
    using that assms by (simp add: p saveSettings_def checkLocationChange_def)
  have fetch: "firstFetch (construct opts h st) = Some ([], 0)"
    if "?l \<noteq> locationId p" and "ui (construct opts h st) \<noteq> None"
    using construct_started [OF that(2)] changed [OF that(1)]
    by (simp add: loadNotifications_def)
  show ?thesis using r s changed same fetch by blast
qed

lemma first_run_resolved:
  "resolved (construct first_options plain_host empty_storage) = spread defaultConfig first_options"
  by (simp add: construct_resolved loadSettings_def empty_storage_def)

lemma between_runs_settings:
  "notiphySettings between_runs = Some (spread defaultConfig first_options)"
  by (simp add: between_runs_def construct_persisted saveSettings_def first_run_resolved)

theorem persisted_settings_override_witness:
  "notiphySettings between_runs = Some (spread defaultConfig first_options)
   \<and> audioAlert (resolved (construct second_options plain_host between_runs))
   \<and> audioAlert (spread defaultConfig second_options) = False
   \<and> locationId (resolved (construct second_options plain_host between_runs)) = ''south''
   \<and> notiphyWidgetNotifications between_runs = Some [sample ''1'' ''hello'' False False]
   \<and> notiphyWidgetNotifications (persisted (construct second_options plain_host between_runs)) = None
   \<and> notiphyWidgetLastFetched (persisted (construct second_options plain_host between_runs)) = None
   \<and> firstFetch (construct second_options plain_host between_runs) = Some ([], 0)"
proof -
  let ?p = "spread defaultConfig first_options"
  have loc: "pick ''default'' (o_locationId second_options) = ''south''" "locationId ?p = ''north''"
    by (simp_all add: second_options_def first_options_def no_options_def spread_def defaultConfig_def)
  have r: "resolved (construct second_options plain_host between_runs) = ?p\<lparr>locationId := ''south''\<rparr>"
    using resolved_from_settings [OF between_runs_settings, of second_options plain_host]
    by (simp add: spread_def second_options_def no_options_def)
  have ids: "\<not> falsy (subscriberId (resolved (construct second_options plain_host between_runs)))"
    "\<not> falsy (widgetKey (resolved (construct second_options plain_host between_runs)))"
    "\<not> compact (resolved (construct second_options plain_host between_runs))"
    unfolding r by (simp_all add: spread_def first_options_def no_options_def defaultConfig_def)
  have built: "ui (construct second_options plain_host between_runs) \<noteq> None"
    using construct_plain [OF ids] by simp
  have a: "audioAlert ?p" "audioAlert (spread defaultConfig second_options) = False"
    by (simp_all add: second_options_def first_options_def no_options_def spread_def defaultConfig_def)
  have c: "notiphyWidgetNotifications between_runs = Some [sample ''1'' ''hello'' False False]"
    by (simp add: between_runs_def)
  show ?thesis
    using persisted_settings_override [OF between_runs_settings, of second_options plain_host]
      loc built a c between_runs_settings
    by simp
qed

section \<open>Adding to the inbox\<close>

lemma add_fields:
  "inbox (addToNotiphyCenter n w) = assembleNotification n # inbox w"
  "totalCount (addToNotiphyCenter n w) = totalCount w + 1"
  "unreadCount (addToNotiphyCenter n w) = (if read n then unreadCount w else unreadCount w + 1)"
  "blockerModal (addToNotiphyCenter n w) = blockerModal w"
  "toaster (addToNotiphyCenter n w) = toaster w"
  "timeouts (addToNotiphyCenter n w) = timeouts w"
  "stor (addToNotiphyCenter n w) = stor w"
  "config (addToNotiphyCenter n w) = config w"
  "socket (addToNotiphyCenter n w) = socket w"
  "notificationsLoaded (addToNotiphyCenter n w) = notificationsLoaded w"
  "reminderIntervalId (addToNotiphyCenter n w) = reminderIntervalId w"
  "notifications (addToNotiphyCenter n w) = notifications w"
  by (simp_all add: addToNotiphyCenter_def updateUnreadCount_def Let_def)

section \<open>A successful fetch\<close>

lemma fold_add_inbox:
  "inbox (foldl (\<lambda>v n. addToNotiphyCenter n v) w ns) = rev (map assembleNotification ns) @ inbox w"
  by (induction ns arbitrary: w) (simp_all add: add_fields)

lemma fold_add_total:
  "totalCount (foldl (\<lambda>v n. addToNotiphyCenter n v) w ns) = totalCount w + int (length ns)"
  by (induction ns arbitrary: w) (simp_all add: add_fields)

lemma fold_add_unread:
  "unreadCount (foldl (\<lambda>v n. addToNotiphyCenter n v) w ns)
     = unreadCount w + int (length (filter (\<lambda>n. \<not> read n) ns))"
  by (induction ns arbitrary: w) (simp_all add: add_fields)

lemma fold_add_rest:
  "stor (foldl (\<lambda>v n. addToNotiphyCenter n v) w ns) = stor w"
  "config (foldl (\<lambda>v n. addToNotiphyCenter n v) w ns) = config w"
  "notificationsLoaded (foldl (\<lambda>v n. addToNotiphyCenter n v) w ns) = notificationsLoaded w"
  "notifications (foldl (\<lambda>v n. addToNotiphyCenter n v) w ns) = notifications w"
  by (induction ns arbitrary: w) (simp_all add: add_fields)

text \<open>
  C9. After a fetch that succeeded the inbox holds exactly the merged notifications
  (rebuilt from nothing, the last merged one on top) and the counters are rebuilt from
  0: the total is the number of merged notifications and the unread counter the number
  of those that are not read, whatever the counters were before.
\<close>

theorem fetch_rebuilds_counters:
  "totalCount (fetchNotifications_response cached now (Ok_json data) w)
     = int (length (merge cached data))
   \<and> unreadCount (fetchNotifications_response cached now (Ok_json data) w)
     = int (length (filter (\<lambda>n. \<not> read n) (merge cached data)))
   \<and> inbox (fetchNotifications_response cached now (Ok_json data) w)
     = rev (map assembleNotification (merge cached data))
   \<and> notifications (fetchNotifications_response cached now (Ok_json data) w) = merge cached data
   \<and> notiphyWidgetNotifications (stor (fetchNotifications_response cached now (Ok_json data) w))
     = Some (merge cached data)"
  by (simp add: fetchNotifications_response_def fetch_succeeded_def Let_def
      toggleNotificationCenter_def fold_add_total fold_add_unread fold_add_inbox fold_add_rest
      updateTotalCount_def updateUnreadCount_def saveNotifications_def)

section \<open>Delivery\<close>



section \<open>Counters under sequences of mutations\<close>

lemma nonneg_step:
  "0 \<le> unreadCount w \<Longrightarrow> 0 \<le> totalCount w \<Longrightarrow>
   0 \<le> unreadCount (apply_mutation w m) \<and> 0 \<le> totalCount (apply_mutation w m)"
  by (cases m)
    (auto simp: add_fields handleDismissedNotification_def handleMarkedReadNotification_def
      updateStatsAfterDismissal_def updateStatsAfterMarkRead_def updateUnreadCount_def Let_def
      split: option.splits)

lemma nonneg_run:
  "0 \<le> unreadCount w \<Longrightarrow> 0 \<le> totalCount w \<Longrightarrow>
   0 \<le> unreadCount (run w ms) \<and> 0 \<le> totalCount (run w ms)"
  unfolding run_def
proof (induction ms arbitrary: w)
  case Nil
  then show ?case by simp
next
  case (Cons m ms)
  then show ?case using nonneg_step [of w m] by simp
qed

lemma find_id_absent:
  "i \<notin> data_notification_id ` set es \<Longrightarrow> filter (\<lambda>e. data_notification_id e \<noteq> i) es = es"
  by (induction es) auto

lemma remove_distinct:
  "distinct (map data_notification_id es) \<Longrightarrow>
   find (\<lambda>e. data_notification_id e = i) es = Some b \<Longrightarrow>
   Suc (length (filter (\<lambda>e. data_notification_id e \<noteq> i) es)) = length es
   \<and> length (filter (\<lambda>e. \<not> notiphy_read e) (filter (\<lambda>e. data_notification_id e \<noteq> i) es))
       + (if notiphy_read b then 0 else 1)
     = length (filter (\<lambda>e. \<not> notiphy_read e) es)"
proof (induction es)
  case Nil
  then show ?case by simp
next
  case (Cons e es)
  show ?case
  proof (cases "data_notification_id e = i")
    case True
    then have "i \<notin> data_notification_id ` set es" using Cons.prems(1) by auto
    then have "filter (\<lambda>e. data_notification_id e \<noteq> i) es = es" by (rule find_id_absent)
    moreover have "b = e" using True Cons.prems(2) by simp
    ultimately show ?thesis using True by simp
  next
    case False
    then show ?thesis using Cons by simp
  qed
qed

lemma mark_first_ids: "map data_notification_id (mark_first i es) = map data_notification_id es"
  by (induction es) auto

lemma mark_first_length: "length (mark_first i es) = length es"
  by (induction es) auto

lemma mark_first_unread:
  "find (\<lambda>e. data_notification_id e = i) es = Some b \<Longrightarrow> \<not> notiphy_read b \<Longrightarrow>
   Suc (length (filter (\<lambda>e. \<not> notiphy_read e) (mark_first i es)))
     = length (filter (\<lambda>e. \<not> notiphy_read e) es)"
  by (induction es) (auto split: if_splits)

lemma mark_first_synced:
  "list_all (\<lambda>e. btn_open e = notiphy_read e) es \<Longrightarrow>
   list_all (\<lambda>e. btn_open e = notiphy_read e) (mark_first i es)"
  by (induction es) auto

lemma find_synced:
  "list_all (\<lambda>e. btn_open e = notiphy_read e) es \<Longrightarrow> find P es = Some b \<Longrightarrow>
   btn_open b = notiphy_read b"
  by (induction es) (auto split: if_splits)

lemma add_keeps:
  assumes "nid n \<notin> set (displayed_ids w)" "distinct (displayed_ids w)" "synced w" "counters_match w"
  shows "distinct (displayed_ids (addToNotiphyCenter n w)) \<and> synced (addToNotiphyCenter n w)
     \<and> counters_match (addToNotiphyCenter n w)"
  using assms
  by (auto simp: displayed_ids_def synced_def counters_match_def unread_entries_def add_fields
      assembleNotification_def)

lemma mark_read_keeps:
  assumes "distinct (displayed_ids w)" "synced w" "counters_match w"
  shows "distinct (displayed_ids (handleMarkedReadNotification i w))
     \<and> synced (handleMarkedReadNotification i w)
     \<and> counters_match (handleMarkedReadNotification i w)"
proof (cases "find (\<lambda>e. data_notification_id e = i) (inbox w)")
  case None
  then show ?thesis using assms by (simp add: handleMarkedReadNotification_def)
next
  case (Some b)
  have sb: "btn_open b = notiphy_read b"
    using assms(2) Some by (auto simp: synced_def dest: find_synced)
  show ?thesis
  proof (cases "btn_open b")
    case True
    then show ?thesis using assms Some
      by (simp add: handleMarkedReadNotification_def updateStatsAfterMarkRead_def Let_def
          displayed_ids_def synced_def counters_match_def unread_entries_def)
  next
    case False
    then have "\<not> notiphy_read b" using sb by simp
    from mark_first_unread [OF Some this] False assms Some show ?thesis
      by (simp add: handleMarkedReadNotification_def updateStatsAfterMarkRead_def Let_def
          displayed_ids_def synced_def counters_match_def unread_entries_def
          updateUnreadCount_def mark_first_ids mark_first_length mark_first_synced)
  qed
qed

lemma dismiss_keeps:
  assumes "distinct (displayed_ids w)" "synced w" "counters_match w"
  shows "distinct (displayed_ids (handleDismissedNotification i w))
     \<and> synced (handleDismissedNotification i w)
     \<and> counters_match (handleDismissedNotification i w)"
proof (cases "find (\<lambda>e. data_notification_id e = i) (inbox w)")
  case None
  then show ?thesis using assms by (simp add: handleDismissedNotification_def)
next
  case (Some b)
  have sb: "btn_open b = notiphy_read b"
    using assms(2) Some by (auto simp: synced_def dest: find_synced)
  have d: "distinct (map data_notification_id (inbox w))"
    using assms(1) by (simp add: displayed_ids_def)
  have syn: "list_all (\<lambda>e. btn_open e = notiphy_read e)
      (filter (\<lambda>e. data_notification_id e \<noteq> i) (inbox w))"
    using assms(2) by (simp add: synced_def list_all_iff)
  from remove_distinct [OF d Some] sb assms Some syn show ?thesis
    by (auto simp add: handleDismissedNotification_def updateStatsAfterDismissal_def Let_def
        displayed_ids_def synced_def counters_match_def unread_entries_def
        updateUnreadCount_def distinct_map_filter)
qed

lemma run_keeps:
  "adds_fresh w ms \<Longrightarrow> distinct (displayed_ids w) \<Longrightarrow> synced w \<Longrightarrow> counters_match w \<Longrightarrow>
   counters_match (run w ms)"
  unfolding run_def
proof (induction w ms rule: adds_fresh.induct)
  case (1 w)
  then show ?case by simp
next
  case (2 w n ms)
  then show ?case using add_keeps [of n w] by simp
next
  case (3 w i ms)
  then show ?case using dismiss_keeps [of w i] by simp
next
  case (4 w i ms)
  then show ?case using mark_read_keeps [of w i] by simp
qed

lemma created_ok:
  "distinct (displayed_ids (initialDom cfg ns st))"
  "synced (initialDom cfg ns st)"
  "counters_match (initialDom cfg ns st)"
  "unreadCount (initialDom cfg ns st) = 0"
  "totalCount (initialDom cfg ns st) = 0"
  by (simp_all add: initialDom_def displayed_ids_def synced_def counters_match_def
      unread_entries_def)

text \<open>
  C1, as the code has it. For every sequence of add, dismiss and mark-read on the widget
  that \<^verbatim>\<open>createDomElements\<close> leaves, both counters are never negative, and every
  decrement is \<open>max(0, c - 1)\<close>. When every add of the sequence carries an id that the
  inbox does not show at that point, the total counter is the number of inbox entries and
  the unread counter the number of entries not marked read.
\<close>

theorem counters_track_inbox:
  "0 \<le> unreadCount (run (initialDom cfg ns st) ms)
   \<and> 0 \<le> totalCount (run (initialDom cfg ns st) ms)
   \<and> (adds_fresh (initialDom cfg ns st) ms \<longrightarrow>
        totalCount (run (initialDom cfg ns st) ms)
          = int (length (inbox (run (initialDom cfg ns st) ms)))
      \<and> unreadCount (run (initialDom cfg ns st) ms)
          = int (unread_entries (run (initialDom cfg ns st) ms)))
   \<and> totalCount (updateStatsAfterDismissal isRead w) = max 0 (totalCount w - 1)
   \<and> unreadCount (updateStatsAfterDismissal isRead w)
       = (if isRead then unreadCount w else max 0 (unreadCount w - 1))
   \<and> unreadCount (updateStatsAfterMarkRead isRead w)
       = (if isRead then unreadCount w else max 0 (unreadCount w - 1))"
proof -
  have nonneg: "0 \<le> unreadCount (run (initialDom cfg ns st) ms)
      \<and> 0 \<le> totalCount (run (initialDom cfg ns st) ms)"
    by (rule nonneg_run) (simp_all add: created_ok)
  have inv: "counters_match (run (initialDom cfg ns st) ms)"
    if "adds_fresh (initialDom cfg ns st) ms"
    using that by (rule run_keeps) (rule created_ok)+
  have clamp: "totalCount (updateStatsAfterDismissal isRead w) = max 0 (totalCount w - 1)"
    "unreadCount (updateStatsAfterDismissal isRead w)
       = (if isRead then unreadCount w else max 0 (unreadCount w - 1))"
    "unreadCount (updateStatsAfterMarkRead isRead w)
       = (if isRead then unreadCount w else max 0 (unreadCount w - 1))"
    by (simp_all add: updateStatsAfterDismissal_def updateStatsAfterMarkRead_def
        updateUnreadCount_def Let_def)
  show ?thesis using nonneg inv clamp by (simp add: counters_match_def)
qed

lemma scenario_run:
  "inbox (run fresh_widget [Add (sample ''1'' ''one'' False False), Add (sample ''2'' ''two'' True False),
      MarkRead ''1'', Remove ''2''])
    = [\<lparr>data_notification_id = ''1'', btn_open = True, notiphy_read = True,
        shown = sample ''1'' ''one'' False False\<rparr>]"
  by (simp add: run_def fresh_widget_def initialDom_def addToNotiphyCenter_def
      handleDismissedNotification_def handleMarkedReadNotification_def
      updateStatsAfterDismissal_def updateStatsAfterMarkRead_def updateUnreadCount_def
      assembleNotification_def sample_def Let_def)

theorem counters_track_inbox_witness:
  "adds_fresh fresh_widget [Add (sample ''1'' ''one'' False False), Add (sample ''2'' ''two'' True False),
      MarkRead ''1'', Remove ''2'']
   \<and> totalCount (run fresh_widget [Add (sample ''1'' ''one'' False False),
        Add (sample ''2'' ''two'' True False), MarkRead ''1'', Remove ''2'']) = 1
   \<and> unreadCount (run fresh_widget [Add (sample ''1'' ''one'' False False),
        Add (sample ''2'' ''two'' True False), MarkRead ''1'', Remove ''2'']) = 0"
proof -
  let ?ms = "[Add (sample ''1'' ''one'' False False), Add (sample ''2'' ''two'' True False),
      MarkRead ''1'', Remove ''2'']"
  have f: "adds_fresh fresh_widget ?ms"
    by (simp add: fresh_widget_def initialDom_def addToNotiphyCenter_def
        displayed_ids_def assembleNotification_def sample_def Let_def updateUnreadCount_def)
  have u: "unread_entries (run fresh_widget ?ms) = 0" "length (inbox (run fresh_widget ?ms)) = 1"
    by (simp_all add: unread_entries_def scenario_run)
  show ?thesis
    using f u counters_track_inbox [of defaultConfig "[]" empty_storage ?ms]
    by (simp add: fresh_widget_def)
qed

text \<open>
  Without that condition the counters drift: the same notification added twice and
  dismissed once leaves the inbox, the session cache and \<^verbatim>\<open>this.notifications\<close>
  empty, and both counters at 1.
\<close>

theorem counters_drift_counterexample:
  "totalCount (run fresh_widget [Add (sample ''1'' ''one'' False False),
        Add (sample ''1'' ''one'' False False), Remove ''1'']) = 1
   \<and> unreadCount (run fresh_widget [Add (sample ''1'' ''one'' False False),
        Add (sample ''1'' ''one'' False False), Remove ''1'']) = 1
   \<and> inbox (run fresh_widget [Add (sample ''1'' ''one'' False False),
        Add (sample ''1'' ''one'' False False), Remove ''1'']) = []
   \<and> loadNotifications (stor (run fresh_widget [Add (sample ''1'' ''one'' False False),
        Add (sample ''1'' ''one'' False False), Remove ''1''])) = []
   \<and> notifications (run fresh_widget [Add (sample ''1'' ''one'' False False),
        Add (sample ''1'' ''one'' False False), Remove ''1'']) = []"
  by (simp add: run_def fresh_widget_def initialDom_def addToNotiphyCenter_def
      handleDismissedNotification_def updateStatsAfterDismissal_def updateUnreadCount_def
      assembleNotification_def sample_def Let_def removeLocalNotification_def
      loadNotifications_def saveNotifications_def empty_storage_def)

section \<open>The user's mark-read and dismiss\<close>






text \<open>
  Two more facts about the \<^verbatim>\<open>then\<close> callbacks. Neither looks at \<^verbatim>\<open>response.ok\<close>, which
  \<^verbatim>\<open>fetchNotifications\<close> does check: an answer with an error status and a JSON body is
  handled like a success. And a body that is the JSON \<^verbatim>\<open>null\<close> ends the callback
  before anything is sent or changed.
\<close>

lemma then_callbacks_ignore_status:
  "dismissNotification i (Json_body False) w = dismissNotification i (Json_body True) w"
  "markRead i (Json_body False) w = markRead i (Json_body True) w"
  by (simp_all add: dismissNotification_def markRead_def markRead_then_def)

lemma then_callbacks_null_body:
  "dismissNotification i (Json_null ok) w = w"
  "markRead i (Json_null ok) w = (if i < length (inbox w) then markRead_before i w else w)"
  by (simp_all add: dismissNotification_def markRead_def markRead_then_def)

section \<open>A fetch that is refused\<close>

text \<open>
  C4. What a status that is not a success does, for each state of the socket. The error
  notification is always added (once, on top, both counters incremented) and the
  exception is always caught and logged. With a connected socket the socket is
  disconnected, the indicator shows \<open>Offline\<close> and the reminders are off afterwards. While
  the socket is still \<^verbatim>\<open>null\<close>, \<^verbatim>\<open>toggleConnection\<close> raises before the reminders are
  looked at: the configuration, the reminder timer and the indicator stay as they were.
  With a socket that is not connected \<^verbatim>\<open>toggleConnection\<close> starts a connection instead,
  and the indicator is not touched.
\<close>

theorem failed_fetch_effects:
  "inbox (fetchNotifications_response cached now (Status_not_ok status) w)
     = assembleNotification (errorNotification now) # inbox w
   \<and> title (errorNotification now) = ''Notiphy.me API Key Error''
   \<and> alertLevel (errorNotification now) = Some ''error''
   \<and> totalCount (fetchNotifications_response cached now (Status_not_ok status) w) = totalCount w + 1
   \<and> unreadCount (fetchNotifications_response cached now (Status_not_ok status) w) = unreadCount w + 1
   \<and> (socket w = Some SockConnected \<longrightarrow>
         connectionText (fetchNotifications_response cached now (Status_not_ok status) w) = ''Offline''
       \<and> indicatorTitle (fetchNotifications_response cached now (Status_not_ok status) w) = ''Offline''
       \<and> socket (fetchNotifications_response cached now (Status_not_ok status) w) = Some SockDisconnected
       \<and> \<not> audioReminder (config (fetchNotifications_response cached now (Status_not_ok status) w))
       \<and> (audioReminder (config w) \<longrightarrow>
            reminderIntervalId (fetchNotifications_response cached now (Status_not_ok status) w) = None)
       \<and> console (fetchNotifications_response cached now (Status_not_ok status) w)
           = console w @ [Caught ''Failed to fetch notifications:'' (RequestFailed status)])
   \<and> (socket w = None \<longrightarrow>
         config (fetchNotifications_response cached now (Status_not_ok status) w) = config w
       \<and> reminderIntervalId (fetchNotifications_response cached now (Status_not_ok status) w)
           = reminderIntervalId w
       \<and> connectionText (fetchNotifications_response cached now (Status_not_ok status) w)
           = connectionText w
       \<and> indicatorTitle (fetchNotifications_response cached now (Status_not_ok status) w)
           = indicatorTitle w
       \<and> console (fetchNotifications_response cached now (Status_not_ok status) w)
           = console w @ [Caught ''Failed to fetch notifications:'' TypeError])
   \<and> (socket w = Some SockDisconnected \<or> socket w = Some SockConnecting \<longrightarrow>
         socket (fetchNotifications_response cached now (Status_not_ok status) w) = Some SockConnecting
       \<and> connectionText (fetchNotifications_response cached now (Status_not_ok status) w)
           = connectionText w
       \<and> indicatorTitle (fetchNotifications_response cached now (Status_not_ok status) w)
           = indicatorTitle w
       \<and> \<not> audioReminder (config (fetchNotifications_response cached now (Status_not_ok status) w)))"
  by (cases "audioReminder (config w)")
    (auto simp: fetchNotifications_response_def fetch_not_ok_def toggleConnection_def
      log_error_def Let_def add_fields errorNotification_def updateConnectionStatus_def
      addToNotiphyCenter_def updateUnreadCount_def toggleAudioReminder_def
      split: option.splits)

lemma started_widget_built:
  "ui (construct reminder_options plain_host empty_storage) = Some started_widget"
  by (simp add: construct_def Let_def loadSettings_def empty_storage_def checkLocationChange_def
      loadNotifications_def started_widget_def spread_def reminder_options_def no_options_def
      defaultConfig_def createDomElements_def)

lemma started_widget_fields:
  "socket started_widget = None" "audioReminder (config started_widget)"
  "reminderIntervalId started_widget = Some 180000" "console started_widget = []"
  "inbox started_widget = []" "connectionText started_widget = []"
  by (simp_all add: started_widget_def setupAudioReminders_def initialDom_def spread_def
      reminder_options_def no_options_def defaultConfig_def)

theorem failed_fetch_effects_witness:
  "ui (construct reminder_options plain_host empty_storage) = Some started_widget
   \<and> socket started_widget = None
   \<and> audioReminder (config started_widget)
   \<and> reminderIntervalId started_widget = Some 180000
   \<and> inbox (fetchNotifications_response [] 5 (Status_not_ok 401) started_widget)
       = [assembleNotification (errorNotification 5)]
   \<and> audioReminder (config (fetchNotifications_response [] 5 (Status_not_ok 401) started_widget))
   \<and> reminderIntervalId (fetchNotifications_response [] 5 (Status_not_ok 401) started_widget)
       = Some 180000
   \<and> connectionText (fetchNotifications_response [] 5 (Status_not_ok 401) started_widget) = []
   \<and> console (fetchNotifications_response [] 5 (Status_not_ok 401) started_widget)
       = [Caught ''Failed to fetch notifications:'' TypeError]"
  using failed_fetch_effects [of "[]" 5 401 started_widget] started_widget_fields
    started_widget_built
  by simp

end
